theory Spec2Isabelle
  imports Main
begin

section \<open>MillicastSignaling: the signaling session and its collaborators\<close>

text \<open>
  The class \<^verbatim>\<open>MillicastSignaling\<close> (MillicastSignaling.js) keeps two handles,
  \<^verbatim>\<open>webSocket\<close> and \<^verbatim>\<open>transactionManager\<close>, and drives them from four
  methods (\<^verbatim>\<open>connect\<close>, \<^verbatim>\<open>close\<close>, \<^verbatim>\<open>subscribe\<close>, \<^verbatim>\<open>publish\<close>) and two
  callbacks it installs on every socket it opens (\<^verbatim>\<open>onopen\<close>, \<^verbatim>\<open>onclose\<close>).

  JavaScript objects are referred to by handles: the n-th \<^verbatim>\<open>WebSocket\<close>, the n-th
  \<^verbatim>\<open>TransactionManager\<close> and the n-th promise ever constructed are the number n; the
  objects themselves live in stores of the world. \<^verbatim>\<open>null\<close> is \<open>None\<close>.
  The platform's \<^verbatim>\<open>WebSocket\<close> and the library's \<^verbatim>\<open>TransactionManager\<close> are outside the
  repository: what they answer (the readiness state of a socket, whether the socket
  constructor throws, the reply to a command) is supplied by the environment.
  Three things are taken for granted about them: \<^verbatim>\<open>new TransactionManager(socket)\<close> and
  \<^verbatim>\<open>tm.on('event', f)\<close> do not throw, \<^verbatim>\<open>tm.cmd(name, data)\<close> hands back a promise
  rather than throwing, and \<^verbatim>\<open>socket.close()\<close> does not throw. Listeners of the
  session's notifications observe the session and do not call its methods from inside
  \<^verbatim>\<open>emit\<close>. Logging is left out.
\<close>

subsection \<open>Values\<close>

text \<open>The four readiness states of a \<^verbatim>\<open>WebSocket\<close>.\<close>

datatype readyState = CONNECTING | OPEN | CLOSING | CLOSED

text \<open>JavaScript values that travel through the session: payload fields, replies, events.\<close>

datatype jsval = Undefined | Null | Str string | Obj "(string \<times> jsval) list"

text \<open>
  What can be thrown or be the reason of a rejection: the object
  \<^verbatim>\<open>{ state: this.webSocket.readyState }\<close> built in \<^verbatim>\<open>onopen\<close>, the \<^verbatim>\<open>TypeError\<close> of a
  property access on \<^verbatim>\<open>null\<close> or \<^verbatim>\<open>undefined\<close>, and any value thrown by a collaborator
  (the socket constructor, the command executor).
\<close>

datatype error = StateError readyState | TypeError | Thrown jsval

text \<open>Property access \<^verbatim>\<open>v.k\<close>.\<close>

fun get_prop :: "jsval \<Rightarrow> string \<Rightarrow> error + jsval" where
  "get_prop Undefined k = Inl TypeError"
| "get_prop Null k = Inl TypeError"
| "get_prop (Str s) k = Inr Undefined"
| "get_prop (Obj fs) k = Inr (case map_of fs k of None \<Rightarrow> Undefined | Some v \<Rightarrow> v)"

datatype promise = Pending | Resolved nat | Rejected error

text \<open>The four notifications the session emits, with their payloads.\<close>

datatype notification =
    ConnectionSuccess nat nat
  | ConnectionError error
  | ConnectionClose
  | Event jsval

subsection \<open>The session and the world around it\<close>

record session =
  webSocket :: "nat option"
  transactionManager :: "nat option"
  streamName :: jsval
  wsUrl :: string

text \<open>
  A socket remembers the URL it was opened with, its readiness state, and the promise
  whose \<^verbatim>\<open>resolve\<close> and \<^verbatim>\<open>reject\<close> the \<^verbatim>\<open>onopen\<close> closure installed on it captured.
  A transaction manager remembers the socket it was constructed on and how many
  \<^verbatim>\<open>'event'\<close> listeners the session has registered on it.
\<close>

record socket =
  url :: string
  ready :: readyState
  owner :: nat

record manager =
  transport :: nat
  listeners :: nat

text \<open>
  The world: the session object (\<^verbatim>\<open>this\<close>), the stores, and three logs:
  the notifications emitted, each with the session a listener sees at that moment
  (\<^verbatim>\<open>emit\<close> calls listeners synchronously); the sockets on which \<^verbatim>\<open>close()\<close> was
  called; the commands handed to \<^verbatim>\<open>TransactionManager.cmd\<close>.
  \<open>ws_ctor\<close> is the environment's answer to \<^verbatim>\<open>new WebSocket(url)\<close>: \<open>Some e\<close> when
  the constructor throws \<open>e\<close>.
\<close>

record world =
  this :: session
  sockets :: "socket list"
  managers :: "manager list"
  promises :: "promise list"
  emitted :: "(notification \<times> session) list"
  closeCalls :: "nat list"
  issued :: "(nat \<times> string \<times> (string \<times> jsval) list) list"
  ws_ctor :: "string \<Rightarrow> error option"

record options =
  opt_streamName :: jsval
  opt_url :: string

definition default_options :: options where
  "default_options = \<lparr>opt_streamName = Null, opt_url = ''ws://localhost:8080/''\<rparr>"

text \<open>The constructor (lines 19-29); the second argument is the environment.\<close>

definition new_session :: "options \<Rightarrow> (string \<Rightarrow> error option) \<Rightarrow> world" where
  "new_session opts ctor =
     \<lparr>this = \<lparr>webSocket = None, transactionManager = None,
              streamName = opt_streamName opts, wsUrl = opt_url opts\<rparr>,
      sockets = [], managers = [], promises = [], emitted = [],
      closeCalls = [], issued = [], ws_ctor = ctor\<rparr>"

subsection \<open>Primitives\<close>

text \<open>\<^verbatim>\<open>this.emit(name, payload)\<close>.\<close>

definition emit :: "notification \<Rightarrow> world \<Rightarrow> world" where
  "emit n w = w\<lparr>emitted := emitted w @ [(n, this w)]\<rparr>"

text \<open>A promise settles once: \<^verbatim>\<open>resolve\<close> and \<^verbatim>\<open>reject\<close> on a settled promise do nothing.\<close>

definition promiseState :: "world \<Rightarrow> nat \<Rightarrow> promise" where
  "promiseState w p = (if p < length (promises w) then promises w ! p else Pending)"

definition settle :: "nat \<Rightarrow> promise \<Rightarrow> world \<Rightarrow> world" where
  "settle p v w =
     (if p < length (promises w) \<and> promises w ! p = Pending
      then w\<lparr>promises := (promises w)[p := v]\<rparr> else w)"

definition resolve :: "nat \<Rightarrow> nat \<Rightarrow> world \<Rightarrow> world" where
  "resolve p s w = settle p (Resolved s) w"

definition reject :: "nat \<Rightarrow> error \<Rightarrow> world \<Rightarrow> world" where
  "reject p e w = settle p (Rejected e) w"

text \<open>
  \<^verbatim>\<open>this.webSocket.readyState\<close> for a socket handle. A handle held by the session always
  denotes a socket of the store (lemma \<open>run_valid_handles\<close> below); the last branch is never taken
  there.
\<close>

definition readyStateOf :: "world \<Rightarrow> nat \<Rightarrow> readyState" where
  "readyStateOf w s = (if s < length (sockets w) then ready (sockets w ! s) else CLOSED)"

text \<open>\<^verbatim>\<open>this.webSocket?.readyState === WebSocket.OPEN\<close>.\<close>

definition is_open :: "world \<Rightarrow> bool" where
  "is_open w = (case webSocket (this w) of None \<Rightarrow> False | Some s \<Rightarrow> readyStateOf w s = OPEN)"

text \<open>\<^verbatim>\<open>tm.on('event', ...)\<close>: one more listener on manager \<open>t\<close>.\<close>

definition add_listener :: "nat \<Rightarrow> world \<Rightarrow> world" where
  "add_listener t w =
     (if t < length (managers w)
      then w\<lparr>managers := (managers w)[t := (managers w ! t)\<lparr>listeners := Suc (listeners (managers w ! t))\<rparr>]\<rparr>
      else w)"

subsection \<open>connect and the two callbacks\<close>

text \<open>
  \<^verbatim>\<open>connect(url)\<close>, lines 41-106. The result is the handle of the promise the call
  returns. On the fast path (line 43) that promise is already resolved with
  \<^verbatim>\<open>this.webSocket\<close>. Otherwise the executor of \<^verbatim>\<open>new Promise\<close> runs: a throwing
  \<^verbatim>\<open>new WebSocket(url)\<close> rejects the promise before anything is assigned; else the
  two fields are overwritten by a new socket and a new manager bound to it, and the
  promise stays pending until \<^verbatim>\<open>onopen\<close>.
\<close>

definition connected :: "world \<Rightarrow> (nat \<times> nat) option" where
  \<comment> \<open>the guard of line 43, with the two handles it found\<close>
  "connected w =
     (case transactionManager (this w) of
        None \<Rightarrow> None
      | Some t \<Rightarrow>
          (case webSocket (this w) of
             None \<Rightarrow> None
           | Some s \<Rightarrow> if readyStateOf w s = OPEN then Some (s, t) else None))"

definition open_transport :: "string \<Rightarrow> world \<Rightarrow> nat \<times> world" where
  \<comment> \<open>lines 58-105: the promise and its executor\<close>
  "open_transport u w =
     (let p = length (promises w); s = length (sockets w); t = length (managers w) in
      case ws_ctor w u of
        Some e \<Rightarrow> (p, w\<lparr>promises := promises w @ [Rejected e]\<rparr>)
      | None \<Rightarrow>
          (p, w\<lparr>this := (this w)\<lparr>webSocket := Some s, transactionManager := Some t\<rparr>,
                 sockets := sockets w @ [\<lparr>url = u, ready = CONNECTING, owner = p\<rparr>],
                 managers := managers w @ [\<lparr>transport = s, listeners = 0\<rparr>],
                 promises := promises w @ [Pending]\<rparr>))"

definition connect :: "string \<Rightarrow> world \<Rightarrow> nat \<times> world" where
  "connect u w =
     (case connected w of
        Some (s, t) \<Rightarrow>
          (length (promises w),
           (emit (ConnectionSuccess s t) w)\<lparr>promises := promises w @ [Resolved s]\<rparr>)
      | None \<Rightarrow> open_transport u w)"

text \<open>
  The \<^verbatim>\<open>onopen\<close> callback of a socket whose closure captured promise \<open>p\<close>, lines 61-92.
  It reads \<^verbatim>\<open>this.webSocket\<close> and \<^verbatim>\<open>this.transactionManager\<close> as they are when it
  runs. The first component of the result is the exception the callback ends with, if
  any (a property access on \<^verbatim>\<open>null\<close>); what it did before is kept.
  There is no \<^verbatim>\<open>return\<close> after \<^verbatim>\<open>reject(error)\<close> (line 74): lines 76-91 run in
  both cases.
\<close>

definition onopen :: "nat \<Rightarrow> world \<Rightarrow> error option \<times> world" where
  "onopen p w =
     (case webSocket (this w) of
        None \<Rightarrow> (Some TypeError, w)
      | Some s \<Rightarrow>
          (let w1 = (if readyStateOf w s \<noteq> OPEN
                     then reject p (StateError (readyStateOf w s))
                            (emit (ConnectionError (StateError (readyStateOf w s))) w)
                     else w)
           in case transactionManager (this w1) of
                None \<Rightarrow> (Some TypeError, w1)
              | Some t \<Rightarrow>
                  (None, resolve p s (emit (ConnectionSuccess s t) (add_listener t w1)))))"

text \<open>The \<^verbatim>\<open>onclose\<close> callback, lines 93-104. It does not mention the socket it sits on.\<close>

definition onclose :: "world \<Rightarrow> world" where
  "onclose w =
     emit ConnectionClose (w\<lparr>this := (this w)\<lparr>webSocket := None, transactionManager := None\<rparr>\<rparr>)"

text \<open>
  \<^verbatim>\<open>close()\<close>, lines 112-117. \<^verbatim>\<open>WebSocket.close()\<close> without arguments does not throw;
  the call is recorded, and what the transport does next is the environment's.
  The first component is the exception the method ends with.
\<close>

definition close :: "world \<Rightarrow> error option \<times> world" where
  "close w =
     (case webSocket (this w) of
        None \<Rightarrow> (None, w)
      | Some s \<Rightarrow> (None, w\<lparr>closeCalls := closeCalls w @ [s]\<rparr>))"

subsection \<open>subscribe and publish\<close>

text \<open>
  Both are \<^verbatim>\<open>async\<close> functions with two \<^verbatim>\<open>await\<close>s. A call is a task: suspended at
  \<^verbatim>\<open>await this.connect(this.wsUrl)\<close> (with the promise, and the command name and
  payload it will send), suspended at \<^verbatim>\<open>await this.transactionManager.cmd(...)\<close>
  (with the position of its command in the log), or finished with the value it returns
  or the error it throws.
\<close>

datatype task =
    AwaitConnect nat string "(string \<times> jsval) list"
  | AwaitCmd nat
  | Finished "error + jsval"

text \<open>
  \<^verbatim>\<open>this.transactionManager.cmd(name, data)\<close>, lines 136 and 167: a \<^verbatim>\<open>TypeError\<close>
  when the field is \<^verbatim>\<open>null\<close>, which the \<^verbatim>\<open>catch\<close> rethrows.
\<close>

definition send_cmd :: "string \<Rightarrow> (string \<times> jsval) list \<Rightarrow> world \<Rightarrow> task \<times> world" where
  "send_cmd name data w =
     (case transactionManager (this w) of
        None \<Rightarrow> (Finished (Inl TypeError), w)
      | Some t \<Rightarrow> (AwaitCmd (length (issued w)), w\<lparr>issued := issued w @ [(t, name, data)]\<rparr>))"

text \<open>The \<^verbatim>\<open>try\<close> block up to its first suspension, lines 131-136 and 162-167.\<close>

definition start_cmd :: "string \<Rightarrow> (string \<times> jsval) list \<Rightarrow> world \<Rightarrow> task \<times> world" where
  "start_cmd name data w =
     (if webSocket (this w) = None \<or> \<not> is_open w
      then (case connect (wsUrl (this w)) w of (p, w') \<Rightarrow> (AwaitConnect p name data, w'))
      else send_cmd name data w)"

definition subscribe :: "string \<Rightarrow> world \<Rightarrow> task \<times> world" where
  "subscribe sdp w =
     start_cmd ''view'' [(''sdp'', Str sdp), (''streamId'', streamName (this w))] w"

definition publish :: "string \<Rightarrow> world \<Rightarrow> task \<times> world" where
  "publish sdp w =
     start_cmd ''publish''
       [(''name'', streamName (this w)), (''sdp'', Str sdp), (''codec'', Str ''h264'')] w"

text \<open>
  \<^verbatim>\<open>return result.sdp\<close> after the command's promise settled with \<open>reply\<close>; a rejection,
  and the \<^verbatim>\<open>TypeError\<close> of \<^verbatim>\<open>result.sdp\<close>, go through \<^verbatim>\<open>catch (e) { throw e }\<close>.
\<close>

definition unwrap :: "error + jsval \<Rightarrow> error + jsval" where
  "unwrap reply = (case reply of Inl e \<Rightarrow> Inl e | Inr result \<Rightarrow> get_prop result ''sdp'')"

text \<open>
  Resuming a suspended call. A call awaiting \<^verbatim>\<open>connect\<close> stays suspended while the
  promise is pending, throws the rejection's reason, or goes on to send its command.
  A call awaiting its command finishes with the executor's \<open>reply\<close>.
\<close>

fun resume :: "task \<Rightarrow> error + jsval \<Rightarrow> world \<Rightarrow> task \<times> world" where
  "resume (AwaitConnect p name data) reply w =
     (case promiseState w p of
        Pending \<Rightarrow> (AwaitConnect p name data, w)
      | Rejected e \<Rightarrow> (Finished (Inl e), w)
      | Resolved s \<Rightarrow> send_cmd name data w)"
| "resume (AwaitCmd i) reply w = (Finished (unwrap reply), w)"
| "resume (Finished r) reply w = (Finished r, w)"

subsection \<open>The environment\<close>

text \<open>
  What the transport and the server do: a socket changes its readiness state, a socket
  fires \<^verbatim>\<open>open\<close> or \<^verbatim>\<open>close\<close> (running the callback installed on it; an exception
  of the callback is dropped), a transaction manager fires \<^verbatim>\<open>'event'\<close> (running
  every listener registered on it, line 86).
\<close>

datatype transport_event =
    ReadyState nat readyState
  | OpenEv nat
  | CloseEv nat
  | ServerEvent nat jsval

fun deliver :: "transport_event \<Rightarrow> world \<Rightarrow> world" where
  "deliver (ReadyState s r) w =
     (if s < length (sockets w)
      then w\<lparr>sockets := (sockets w)[s := (sockets w ! s)\<lparr>ready := r\<rparr>]\<rparr> else w)"
| "deliver (OpenEv s) w =
     (if s < length (sockets w) then snd (onopen (owner (sockets w ! s)) w) else w)"
| "deliver (CloseEv s) w = (if s < length (sockets w) then onclose w else w)"
| "deliver (ServerEvent t evt) w =
     (if t < length (managers w)
      then (emit (Event evt) ^^ listeners (managers w ! t)) w else w)"

definition deliver_all :: "transport_event list \<Rightarrow> world \<Rightarrow> world" where
  "deliver_all evs w = foldl (\<lambda>w ev. deliver ev w) w evs"

text \<open>
  One whole call of \<^verbatim>\<open>subscribe\<close> or \<^verbatim>\<open>publish\<close>, from its first step \<open>tw\<close>: the
  environment acts (\<open>evs1\<close>) while the call awaits \<^verbatim>\<open>connect\<close>, and again (\<open>evs2\<close>)
  while it awaits its command, which the executor answers with \<open>reply\<close>.
  A call whose \<^verbatim>\<open>connect\<close> promise is still pending after \<open>evs1\<close> has not returned.
\<close>

definition complete ::
  "task \<times> world \<Rightarrow> transport_event list \<Rightarrow> transport_event list \<Rightarrow> error + jsval \<Rightarrow> task \<times> world" where
  "complete tw evs1 evs2 reply =
     (let (t1, w1) =
            (case tw of
               (AwaitConnect p name data, w) \<Rightarrow>
                  resume (AwaitConnect p name data) reply (deliver_all evs1 w)
             | (t, w) \<Rightarrow> (t, w))
      in case t1 of
           AwaitCmd i \<Rightarrow> resume (AwaitCmd i) reply (deliver_all evs2 w1)
         | _ \<Rightarrow> (t1, w1))"

text \<open>
  Everything that can happen to a session: the environment acts, a caller calls a
  method, or a suspended call is resumed.
\<close>

datatype action =
    Transport transport_event
  | Connect string
  | Close
  | Subscribe string
  | Publish string
  | Resume task "error + jsval"

fun exec :: "action \<Rightarrow> world \<Rightarrow> world" where
  "exec (Transport ev) w = deliver ev w"
| "exec (Connect u) w = snd (connect u w)"
| "exec Close w = snd (close w)"
| "exec (Subscribe sdp) w = snd (subscribe sdp w)"
| "exec (Publish sdp) w = snd (publish sdp w)"
| "exec (Resume t reply) w = snd (resume t reply w)"

definition run :: "action list \<Rightarrow> world \<Rightarrow> world" where
  "run acts w = foldl (\<lambda>w a. exec a w) w acts"

text \<open>The two handles are both \<^verbatim>\<open>null\<close> or both set.\<close>

definition paired :: "session \<Rightarrow> bool" where
  "paired s = ((webSocket s = None) = (transactionManager s = None))"

text \<open>The session is paired now and was paired whenever a listener was called.\<close>

definition consistent :: "world \<Rightarrow> bool" where
  "consistent w = (paired (this w) \<and> list_all (\<lambda>(n, s). paired s) (emitted w))"

text \<open>Every handle held by the session or by a socket denotes an object of the stores.\<close>

definition valid_handles :: "world \<Rightarrow> bool" where
  "valid_handles w =
     ((case webSocket (this w) of None \<Rightarrow> True | Some s \<Rightarrow> s < length (sockets w)) \<and>
      (case transactionManager (this w) of None \<Rightarrow> True | Some t \<Rightarrow> t < length (managers w)) \<and>
      list_all (\<lambda>s. owner s < length (promises w)) (sockets w))"

subsection \<open>Scenarios\<close>

text \<open>
  The session of the specification's scenarios: stream \<^verbatim>\<open>cam1\<close>, endpoint
  \<^verbatim>\<open>ws://host/ws\<close>, a socket constructor that never throws. The session is taken
  new, after one \<^verbatim>\<open>connect\<close>, after the transport opened in state \<^verbatim>\<open>OPEN\<close> or in
  state \<^verbatim>\<open>CLOSING\<close>, and after a second \<^verbatim>\<open>connect\<close> made while the first is in
  flight. \<open>answer1\<close> is the executor's reply \<^verbatim>\<open>{ sdp: "answer-sdp-1" }\<close>.
\<close>

definition no_throw :: "string \<Rightarrow> error option" where
  "no_throw u = None"

definition cam1 :: world where
  "cam1 = new_session \<lparr>opt_streamName = Str ''cam1'', opt_url = ''ws://host/ws''\<rparr> no_throw"

definition cam1_connecting :: world where
  "cam1_connecting = snd (connect ''ws://host/ws'' cam1)"

definition cam1_open :: world where
  "cam1_open = deliver (OpenEv 0) (deliver (ReadyState 0 OPEN) cam1_connecting)"

definition cam1_bad_open :: world where
  "cam1_bad_open = deliver (OpenEv 0) (deliver (ReadyState 0 CLOSING) cam1_connecting)"

definition cam1_twice :: world where
  "cam1_twice = snd (connect ''ws://host/ws'' cam1_connecting)"

definition answer1 :: "error + jsval" where
  "answer1 = Inr (Obj [(''sdp'', Str ''answer-sdp-1'')])"

text \<open>
  The same session in a world whose socket constructor throws on the URL
  \<^verbatim>\<open>ws://bad/ws\<close> and on no other, taken after one \<^verbatim>\<open>connect('ws://host/ws')\<close>.
\<close>

definition throws_on_bad :: "string \<Rightarrow> error option" where
  "throws_on_bad u = (if u = ''ws://bad/ws'' then Some (Thrown (Str ''SyntaxError'')) else None)"

definition cam1_strict :: world where
  "cam1_strict =
     snd (connect ''ws://host/ws''
            (new_session \<lparr>opt_streamName = Str ''cam1'', opt_url = ''ws://host/ws''\<rparr>
               throws_on_bad))"

subsection \<open>Basic facts\<close>

lemmas scenario_defs =
  cam1_bad_open_def cam1_twice_def cam1_open_def cam1_connecting_def cam1_def new_session_def
  no_throw_def connect_def connected_def open_transport_def onopen_def onclose_def
  readyStateOf_def resolve_def reject_def settle_def emit_def add_listener_def promiseState_def
  is_open_def

lemmas call_defs =
  complete_def subscribe_def publish_def start_cmd_def deliver_all_def send_cmd_def unwrap_def
  answer1_def

lemma emit_fields [simp]:
  "this (emit n w) = this w" "sockets (emit n w) = sockets w"
  "managers (emit n w) = managers w" "promises (emit n w) = promises w"
  "closeCalls (emit n w) = closeCalls w" "issued (emit n w) = issued w"
  "ws_ctor (emit n w) = ws_ctor w" "emitted (emit n w) = emitted w @ [(n, this w)]"
  by (simp_all add: emit_def)

lemma settle_fields [simp]:
  "this (settle p v w) = this w" "sockets (settle p v w) = sockets w"
  "managers (settle p v w) = managers w" "emitted (settle p v w) = emitted w"
  "closeCalls (settle p v w) = closeCalls w" "issued (settle p v w) = issued w"
  "ws_ctor (settle p v w) = ws_ctor w" "length (promises (settle p v w)) = length (promises w)"
  by (simp_all add: settle_def)

lemma add_listener_fields [simp]:
  "this (add_listener t w) = this w" "sockets (add_listener t w) = sockets w"
  "promises (add_listener t w) = promises w" "emitted (add_listener t w) = emitted w"
  "closeCalls (add_listener t w) = closeCalls w" "issued (add_listener t w) = issued w"
  "ws_ctor (add_listener t w) = ws_ctor w"
  "length (managers (add_listener t w)) = length (managers w)"
  by (simp_all add: add_listener_def)

lemma readyStateOf_cong [simp]:
  "readyStateOf (emit n w) s = readyStateOf w s"
  "readyStateOf (settle p v w) s = readyStateOf w s"
  "readyStateOf (add_listener t w) s = readyStateOf w s"
  by (simp_all add: readyStateOf_def)

lemma connected_Some:
  "connected w = Some (s, t) \<longleftrightarrow>
     transactionManager (this w) = Some t \<and> webSocket (this w) = Some s \<and> readyStateOf w s = OPEN"
  by (auto simp: connected_def split: option.splits)

lemma connected_None:
  "connected w = None \<longleftrightarrow>
     transactionManager (this w) = None \<or> \<not> is_open w"
  by (auto simp: connected_def is_open_def split: option.splits)

lemma open_transport_cases:
  "(\<exists>e. ws_ctor w u = Some e \<and>
        open_transport u w = (length (promises w), w\<lparr>promises := promises w @ [Rejected e]\<rparr>))
   \<or> (ws_ctor w u = None \<and>
        open_transport u w =
          (length (promises w),
           w\<lparr>this := (this w)\<lparr>webSocket := Some (length (sockets w)),
                                transactionManager := Some (length (managers w))\<rparr>,
             sockets := sockets w @ [\<lparr>url = u, ready = CONNECTING, owner = length (promises w)\<rparr>],
             managers := managers w @ [\<lparr>transport = length (sockets w), listeners = 0\<rparr>],
             promises := promises w @ [Pending]\<rparr>))"
  by (cases "ws_ctor w u") (simp_all add: open_transport_def Let_def)

lemma open_transport_keeps_handle:
  "webSocket (this w) \<noteq> None \<Longrightarrow> webSocket (this (snd (open_transport u w))) \<noteq> None"
  "transactionManager (this w) \<noteq> None \<Longrightarrow> transactionManager (this (snd (open_transport u w))) \<noteq> None"
  by (auto simp: open_transport_def Let_def split: option.splits)

lemma connect_keeps_handle:
  "webSocket (this w) \<noteq> None \<Longrightarrow> webSocket (this (snd (connect u w))) \<noteq> None"
  "transactionManager (this w) \<noteq> None \<Longrightarrow> transactionManager (this (snd (connect u w))) \<noteq> None"
  using open_transport_keeps_handle [of w u]
  by (auto simp: connect_def split: option.splits)

lemma onopen_this [simp]: "this (snd (onopen p w)) = this w"
  by (simp add: onopen_def resolve_def reject_def Let_def split: option.splits)

lemma send_cmd_this [simp]: "this (snd (send_cmd name data w)) = this w"
  by (simp add: send_cmd_def split: option.splits)

lemma start_cmd_keeps_handle:
  "webSocket (this w) \<noteq> None \<Longrightarrow> webSocket (this (snd (start_cmd name data w))) \<noteq> None"
  "transactionManager (this w) \<noteq> None \<Longrightarrow>
     transactionManager (this (snd (start_cmd name data w))) \<noteq> None"
  using connect_keeps_handle [of w "wsUrl (this w)"]
  by (auto simp: start_cmd_def split: prod.splits)

lemma resume_this [simp]: "this (snd (resume t reply w)) = this w"
  by (cases t) (simp_all split: promise.splits)

lemma close_this [simp]: "this (snd (close w)) = this w"
  by (simp add: close_def split: option.splits)

lemma emit_funpow_this [simp]: "this ((emit n ^^ k) w) = this w"
  by (induction k) simp_all

lemma deliver_keeps_handle:
  assumes "\<forall>s. ev \<noteq> CloseEv s"
  shows "this (deliver ev w) = this w"
  using assms by (cases ev) simp_all

lemma exec_keeps_handle:
  assumes "\<forall>s. a \<noteq> Transport (CloseEv s)"
  shows "webSocket (this w) \<noteq> None \<Longrightarrow> webSocket (this (exec a w)) \<noteq> None"
    and "transactionManager (this w) \<noteq> None \<Longrightarrow> transactionManager (this (exec a w)) \<noteq> None"
  using assms
  by (cases a; simp add: deliver_keeps_handle connect_keeps_handle start_cmd_keeps_handle
        subscribe_def publish_def)+

lemma open_transport_ok:
  "ws_ctor w u = None \<Longrightarrow>
     open_transport u w =
       (length (promises w),
        w\<lparr>this := (this w)\<lparr>webSocket := Some (length (sockets w)),
                             transactionManager := Some (length (managers w))\<rparr>,
          sockets := sockets w @ [\<lparr>url = u, ready = CONNECTING, owner = length (promises w)\<rparr>],
          managers := managers w @ [\<lparr>transport = length (sockets w), listeners = 0\<rparr>],
          promises := promises w @ [Pending]\<rparr>)"
  by (simp add: open_transport_def Let_def)

lemma open_transport_throws:
  "ws_ctor w u = Some e \<Longrightarrow>
     open_transport u w = (length (promises w), w\<lparr>promises := promises w @ [Rejected e]\<rparr>)"
  by (simp add: open_transport_def Let_def)

lemma promiseState_emit [simp]: "promiseState (emit n w) p = promiseState w p"
  by (simp add: promiseState_def)

lemma promiseState_add_listener [simp]: "promiseState (add_listener t w) p = promiseState w p"
  by (simp add: promiseState_def)

lemma promiseState_settle:
  "promiseState (settle p v w) q =
     (if q = p \<and> p < length (promises w) \<and> promiseState w p = Pending then v
      else promiseState w q)"
  by (auto simp: promiseState_def settle_def)

lemma onopen_not_open:
  assumes "webSocket (this w) = Some s" and "transactionManager (this w) = Some t"
    and "readyStateOf w s \<noteq> OPEN" and "promiseState w p = Pending" and "p < length (promises w)"
  shows "fst (onopen p w) = None"
    and "emitted (snd (onopen p w)) =
           emitted w @ [(ConnectionError (StateError (readyStateOf w s)), this w),
                        (ConnectionSuccess s t, this w)]"
    and "promiseState (snd (onopen p w)) p = Rejected (StateError (readyStateOf w s))"
  using assms
  by (simp_all add: onopen_def reject_def resolve_def promiseState_settle)

subsection \<open>Invariants of every run\<close>

lemma consistent_emit: "consistent w \<Longrightarrow> consistent (emit n w)"
  by (simp add: consistent_def)

lemma consistent_same:
  "this w' = this w \<Longrightarrow> emitted w' = emitted w \<Longrightarrow> consistent w' = consistent w"
  by (simp add: consistent_def)

lemma consistent_open_transport: "consistent w \<Longrightarrow> consistent (snd (open_transport u w))"
  by (cases "ws_ctor w u")
     (simp_all add: open_transport_ok open_transport_throws consistent_def paired_def)

lemma consistent_connect: "consistent w \<Longrightarrow> consistent (snd (connect u w))"
proof (cases "connected w")
  case None
  then show "consistent w \<Longrightarrow> ?thesis"
    by (simp add: connect_def consistent_open_transport)
next
  case (Some st)
  then show "consistent w \<Longrightarrow> ?thesis"
    by (cases st) (simp add: connect_def consistent_def)
qed

lemma consistent_onopen: "consistent w \<Longrightarrow> consistent (snd (onopen p w))"
  by (auto simp: onopen_def resolve_def reject_def consistent_def Let_def split: option.splits)

lemma consistent_onclose: "consistent w \<Longrightarrow> consistent (onclose w)"
  by (simp add: onclose_def consistent_def paired_def)

lemma consistent_close: "consistent w \<Longrightarrow> consistent (snd (close w))"
  by (simp add: close_def consistent_def split: option.splits)

lemma consistent_send_cmd: "consistent w \<Longrightarrow> consistent (snd (send_cmd name data w))"
  by (simp add: send_cmd_def consistent_def split: option.splits)

lemma consistent_start_cmd: "consistent w \<Longrightarrow> consistent (snd (start_cmd name data w))"
  using consistent_connect [of w "wsUrl (this w)"]
  by (auto simp: start_cmd_def consistent_send_cmd split: prod.splits)

lemma consistent_resume: "consistent w \<Longrightarrow> consistent (snd (resume t reply w))"
  by (cases t) (simp_all add: consistent_send_cmd split: promise.splits)

lemma consistent_emit_funpow: "consistent w \<Longrightarrow> consistent ((emit n ^^ k) w)"
  by (induction k) (simp_all add: consistent_emit)

lemma consistent_deliver: "consistent w \<Longrightarrow> consistent (deliver ev w)"
proof (cases ev)
  case (ReadyState s r)
  then show "consistent w \<Longrightarrow> ?thesis"
    by (simp add: consistent_def)
qed (simp_all add: consistent_onopen consistent_onclose consistent_emit_funpow)

lemma consistent_exec: "consistent w \<Longrightarrow> consistent (exec a w)"
  by (cases a)
     (simp_all add: consistent_deliver consistent_connect consistent_close consistent_start_cmd
        consistent_resume subscribe_def publish_def)

lemma consistent_run: "consistent w \<Longrightarrow> consistent (run acts w)"
  unfolding run_def by (induction acts arbitrary: w) (simp_all add: consistent_exec)

lemma run_append: "run (as @ bs) w = run bs (run as w)"
  by (simp add: run_def)

subsection \<open>Sockets are never removed from the store\<close>

lemma sockets_onopen [simp]: "sockets (snd (onopen p w)) = sockets w"
  by (simp add: onopen_def resolve_def reject_def Let_def split: option.splits)

lemma sockets_onclose [simp]: "sockets (onclose w) = sockets w"
  by (simp add: onclose_def)

lemma sockets_close [simp]: "sockets (snd (close w)) = sockets w"
  by (simp add: close_def split: option.splits)

lemma sockets_send_cmd [simp]: "sockets (snd (send_cmd name data w)) = sockets w"
  by (simp add: send_cmd_def split: option.splits)

lemma sockets_resume [simp]: "sockets (snd (resume t reply w)) = sockets w"
  by (cases t) (simp_all split: promise.splits)

lemma sockets_emit_funpow [simp]: "sockets ((emit n ^^ k) w) = sockets w"
  by (induction k) simp_all

lemma sockets_open_transport: "length (sockets w) \<le> length (sockets (snd (open_transport u w)))"
  by (cases "ws_ctor w u") (simp_all add: open_transport_ok open_transport_throws)

lemma sockets_connect: "length (sockets w) \<le> length (sockets (snd (connect u w)))"
  by (cases "connected w") (auto simp: connect_def sockets_open_transport)

lemma sockets_start_cmd: "length (sockets w) \<le> length (sockets (snd (start_cmd name data w)))"
  using sockets_connect [of w "wsUrl (this w)"]
  by (auto simp: start_cmd_def split: prod.splits)

lemma sockets_deliver: "length (sockets (deliver ev w)) = length (sockets w)"
  by (cases ev) simp_all

lemma sockets_exec: "length (sockets w) \<le> length (sockets (exec a w))"
  by (cases a)
     (simp_all add: sockets_deliver sockets_connect sockets_start_cmd subscribe_def publish_def)

lemma sockets_run: "length (sockets w) \<le> length (sockets (run acts w))"
  unfolding run_def
proof (induction acts arbitrary: w)
  case Nil
  show ?case by simp
next
  case (Cons a acts)
  have "length (sockets w) \<le> length (sockets (exec a w))"
    by (rule sockets_exec)
  also have "\<dots> \<le> length (sockets (foldl (\<lambda>w a. exec a w) (exec a w) acts))"
    by (rule Cons.IH)
  finally show ?case by simp
qed

subsection \<open>Only a call's own step adds to the command log\<close>

lemma issued_onopen [simp]: "issued (snd (onopen p w)) = issued w"
  by (simp add: onopen_def resolve_def reject_def Let_def split: option.splits)

lemma issued_emit_funpow [simp]: "issued ((emit n ^^ k) w) = issued w"
  by (induction k) simp_all

lemma issued_deliver [simp]: "issued (deliver ev w) = issued w"
  by (cases ev) (simp_all add: onclose_def)

lemma issued_deliver_all [simp]: "issued (deliver_all evs w) = issued w"
  unfolding deliver_all_def by (induction evs arbitrary: w) simp_all

lemma issued_connect [simp]: "issued (snd (connect u w)) = issued w"
proof (cases "connected w")
  case None
  then show ?thesis
    by (cases "ws_ctor w u") (simp_all add: connect_def open_transport_ok open_transport_throws)
next
  case (Some st)
  then show ?thesis
    by (cases st) (simp add: connect_def)
qed

lemma send_cmd_Some:
  "transactionManager (this w) = Some t \<Longrightarrow>
     send_cmd name data w = (AwaitCmd (length (issued w)), w\<lparr>issued := issued w @ [(t, name, data)]\<rparr>)"
  by (simp add: send_cmd_def)

lemma send_cmd_None:
  "transactionManager (this w) = None \<Longrightarrow> send_cmd name data w = (Finished (Inl TypeError), w)"
  by (simp add: send_cmd_def)

lemma unwrap_Inr: "unwrap reply = Inr v \<Longrightarrow> \<exists>result. reply = Inr result \<and> get_prop result ''sdp'' = Inr v"
  by (cases reply) (simp_all add: unwrap_def)

text \<open>
  The world in which a call sends its command: the world of the call when the socket is
  open, else the world after \<^verbatim>\<open>connect\<close> and whatever the environment did meanwhile.
\<close>

lemma complete_success:
  assumes "complete (start_cmd name data w) evs1 evs2 reply = (Finished (Inr v), w')"
  shows "\<exists>t. transactionManager
               (this (if webSocket (this w) = None \<or> \<not> is_open w
                      then deliver_all evs1 (snd (connect (wsUrl (this w)) w)) else w)) = Some t
             \<and> issued w' = issued w @ [(t, name, data)]
             \<and> (\<exists>result. reply = Inr result \<and> get_prop result ''sdp'' = Inr v)"
proof (cases "webSocket (this w) = None \<or> \<not> is_open w")
  case True
  obtain p w1 where c: "connect (wsUrl (this w)) w = (p, w1)"
    by (cases "connect (wsUrl (this w)) w")
  have i1: "issued w1 = issued w"
    using issued_connect [of "wsUrl (this w)" w] c by simp
  let ?w2 = "deliver_all evs1 w1"
  have st: "start_cmd name data w = (AwaitConnect p name data, w1)"
    using True c by (simp add: start_cmd_def)
  show ?thesis
  proof (cases "promiseState ?w2 p")
    case Pending
    then show ?thesis using assms by (simp add: st complete_def)
  next
    case (Rejected e)
    then show ?thesis using assms by (simp add: st complete_def)
  next
    case (Resolved s)
    show ?thesis
    proof (cases "transactionManager (this ?w2)")
      case None
      then show ?thesis using assms Resolved by (simp add: st complete_def send_cmd_None)
    next
      case (Some t)
      from assms Resolved Some
      have "unwrap reply = Inr v"
        and "w' = deliver_all evs2 (?w2\<lparr>issued := issued ?w2 @ [(t, name, data)]\<rparr>)"
        by (simp_all add: st complete_def send_cmd_Some)
      then show ?thesis
        using True Some c i1 by (auto simp: unwrap_Inr)
    qed
  qed
next
  case False
  then have st: "start_cmd name data w = send_cmd name data w"
    by (auto simp: start_cmd_def)
  show ?thesis
  proof (cases "transactionManager (this w)")
    case None
    then show ?thesis using assms by (simp add: st complete_def send_cmd_None)
  next
    case (Some t)
    from assms Some
    have "unwrap reply = Inr v"
      and "w' = deliver_all evs2 (w\<lparr>issued := issued w @ [(t, name, data)]\<rparr>)"
      by (simp_all add: st complete_def send_cmd_Some)
    then show ?thesis
      using False Some by (auto simp: unwrap_Inr)
  qed
qed

subsection \<open>Handles always denote objects of the stores\<close>

lemma valid_handles_emit [simp]: "valid_handles (emit n w) = valid_handles w"
  by (simp add: valid_handles_def split: option.splits)

lemma valid_handles_settle [simp]: "valid_handles (settle p v w) = valid_handles w"
  by (simp add: valid_handles_def split: option.splits)

lemma valid_handles_add_listener [simp]: "valid_handles (add_listener t w) = valid_handles w"
  by (simp add: valid_handles_def split: option.splits)

lemma valid_handles_open_transport: "valid_handles w \<Longrightarrow> valid_handles (snd (open_transport u w))"
proof (cases "ws_ctor w u")
  case None
  then show "valid_handles w \<Longrightarrow> ?thesis"
    by (auto simp: open_transport_ok valid_handles_def list_all_iff split: option.splits)
next
  case (Some e)
  then show "valid_handles w \<Longrightarrow> ?thesis"
    by (auto simp: open_transport_throws valid_handles_def list_all_iff split: option.splits)
qed

lemma valid_handles_connect: "valid_handles w \<Longrightarrow> valid_handles (snd (connect u w))"
proof (cases "connected w")
  case None
  then show "valid_handles w \<Longrightarrow> ?thesis"
    by (simp add: connect_def valid_handles_open_transport)
next
  case (Some st)
  then show "valid_handles w \<Longrightarrow> ?thesis"
    by (cases st) (auto simp: connect_def valid_handles_def list_all_iff split: option.splits)
qed

lemma valid_handles_onopen: "valid_handles w \<Longrightarrow> valid_handles (snd (onopen p w))"
  by (simp add: onopen_def resolve_def reject_def Let_def split: option.splits)

lemma valid_handles_onclose: "valid_handles w \<Longrightarrow> valid_handles (onclose w)"
  by (simp add: onclose_def valid_handles_def)

lemma valid_handles_close: "valid_handles w \<Longrightarrow> valid_handles (snd (close w))"
  by (simp add: close_def valid_handles_def split: option.splits)

lemma valid_handles_send_cmd: "valid_handles w \<Longrightarrow> valid_handles (snd (send_cmd name data w))"
  by (simp add: send_cmd_def valid_handles_def split: option.splits)

lemma valid_handles_start_cmd: "valid_handles w \<Longrightarrow> valid_handles (snd (start_cmd name data w))"
  using valid_handles_connect [of w "wsUrl (this w)"]
  by (auto simp: start_cmd_def valid_handles_send_cmd split: prod.splits)

lemma valid_handles_resume: "valid_handles w \<Longrightarrow> valid_handles (snd (resume t reply w))"
  by (cases t) (simp_all add: valid_handles_send_cmd split: promise.splits)

lemma valid_handles_emit_funpow: "valid_handles ((emit n ^^ k) w) = valid_handles w"
  by (induction k) simp_all

lemma valid_handles_deliver: "valid_handles w \<Longrightarrow> valid_handles (deliver ev w)"
proof (cases ev)
  case (ReadyState s r)
  then show "valid_handles w \<Longrightarrow> ?thesis"
    by (auto simp: valid_handles_def list_all_iff dest!: set_update_subset_insert [THEN subsetD]
        split: option.splits)
qed (simp_all add: valid_handles_onopen valid_handles_onclose valid_handles_emit_funpow)

lemma valid_handles_exec: "valid_handles w \<Longrightarrow> valid_handles (exec a w)"
  by (cases a)
     (simp_all add: valid_handles_deliver valid_handles_connect valid_handles_close valid_handles_start_cmd valid_handles_resume subscribe_def publish_def)

lemma run_valid_handles: "valid_handles (run acts (new_session opts ctor))"
proof -
  have step: "valid_handles w \<Longrightarrow> valid_handles (run acts w)" for w
    unfolding run_def by (induction acts arbitrary: w) (simp_all add: valid_handles_exec)
  have "valid_handles (new_session opts ctor)"
    by (simp add: valid_handles_def new_session_def)
  then show ?thesis by (rule step)
qed

section \<open>The claims\<close>

text \<open>
  Claim C1 (an \<^verbatim>\<open>open\<close> notification in a readiness state other than \<^verbatim>\<open>OPEN\<close>
  emits \<^verbatim>\<open>connectionError\<close>, rejects the pending promise with the same error, and
  emits no \<^verbatim>\<open>connectionSuccess\<close>).
  The code at the input \<^verbatim>\<open>connect('ws://host/ws')\<close> on a new session, followed by
  \<^verbatim>\<open>open\<close> firing while the socket is \<^verbatim>\<open>CLOSING\<close>: the error is emitted and the
  promise is rejected with it, and then, there being no \<^verbatim>\<open>return\<close> after
  \<^verbatim>\<open>reject(error)\<close>, the \<^verbatim>\<open>'event'\<close> listener is registered and
  \<^verbatim>\<open>connectionSuccess\<close> is emitted all the same. Lemma \<open>onopen_not_open\<close> above
  shows the same for every session whose two handles are set.
\<close>

theorem onopen_bad_state_still_succeeds:
  "map fst (emitted cam1_bad_open) =
     [ConnectionError (StateError CLOSING), ConnectionSuccess 0 0]
   \<and> promiseState cam1_bad_open (fst (connect ''ws://host/ws'' cam1)) = Rejected (StateError CLOSING)
   \<and> listeners (managers cam1_bad_open ! 0) = 1"
  by (simp add: scenario_defs)

text \<open>
  Claim C2: when \<^verbatim>\<open>transactionManager\<close> is set and the socket is \<^verbatim>\<open>OPEN\<close>,
  \<^verbatim>\<open>connect(url)\<close> returns a promise resolved with the existing socket, emits
  \<^verbatim>\<open>connectionSuccess\<close> with the existing socket and manager, and constructs nothing:
  the stores of sockets and managers are as before. A second \<^verbatim>\<open>connect\<close> resolves
  with the same socket, and the stores and the session are still as before the first.
\<close>

theorem connect_fast_path:
  assumes "transactionManager (this w) = Some t" and "webSocket (this w) = Some s"
    and "readyStateOf w s = OPEN"
  shows "connect u w =
           (length (promises w),
            w\<lparr>emitted := emitted w @ [(ConnectionSuccess s t, this w)],
              promises := promises w @ [Resolved s]\<rparr>)
         \<and> promiseState (snd (connect u w)) (fst (connect u w)) = Resolved s
         \<and> promiseState (snd (connect u' (snd (connect u w)))) (fst (connect u' (snd (connect u w))))
             = Resolved s
         \<and> sockets (snd (connect u' (snd (connect u w)))) = sockets w
         \<and> managers (snd (connect u' (snd (connect u w)))) = managers w
         \<and> this (snd (connect u' (snd (connect u w)))) = this w"
proof -
  let ?w1 = "w\<lparr>emitted := emitted w @ [(ConnectionSuccess s t, this w)],
               promises := promises w @ [Resolved s]\<rparr>"
  have c: "connected w = Some (s, t)"
    using assms by (simp add: connected_Some)
  have first: "connect u w = (length (promises w), ?w1)"
    by (simp add: connect_def c emit_def)
  have c1: "connected ?w1 = Some (s, t)"
    using assms by (auto simp: connected_Some readyStateOf_def split: if_splits)
  have second: "connect u' ?w1 =
      (Suc (length (promises w)),
       ?w1\<lparr>emitted := emitted ?w1 @ [(ConnectionSuccess s t, this w)],
            promises := promises ?w1 @ [Resolved s]\<rparr>)"
    by (simp add: connect_def c1 emit_def)
  have s1: "snd (connect u w) = ?w1" and f1: "fst (connect u w) = length (promises w)"
    by (simp_all add: first)
  have "promiseState ?w1 (length (promises w)) = Resolved s"
    by (simp add: promiseState_def)
  moreover have "promiseState (snd (connect u' ?w1)) (fst (connect u' ?w1)) = Resolved s"
    unfolding second by (simp add: promiseState_def nth_append)
  moreover have "sockets (snd (connect u' ?w1)) = sockets w"
    and "managers (snd (connect u' ?w1)) = managers w"
    and "this (snd (connect u' ?w1)) = this w"
    unfolding second by simp_all
  ultimately show ?thesis
    unfolding s1 f1 using first by blast
qed

text \<open>
  C2 on the session \<open>cam1_open\<close>, connected to \<^verbatim>\<open>ws://host/ws\<close>.
\<close>

theorem connect_fast_path_witness:
  "transactionManager (this cam1_open) = Some 0 \<and> webSocket (this cam1_open) = Some 0
   \<and> readyStateOf cam1_open 0 = OPEN
   \<and> promiseState (snd (connect ''ws://host/ws'' cam1_open)) (fst (connect ''ws://host/ws'' cam1_open))
       = Resolved 0
   \<and> sockets (snd (connect ''ws://other/ws'' (snd (connect ''ws://host/ws'' cam1_open))))
       = sockets cam1_open"
proof -
  have h1: "transactionManager (this cam1_open) = Some 0"
    and h2: "webSocket (this cam1_open) = Some 0"
    and h3: "readyStateOf cam1_open 0 = OPEN"
    by (simp_all add: scenario_defs)
  from connect_fast_path [OF h1 h2 h3, of "''ws://host/ws''" "''ws://other/ws''"] h1 h2 h3
  show ?thesis by blast
qed

text \<open>
  Claim C3 as stated (a \<^verbatim>\<open>connect()\<close> made while the socket is set and not yet
  \<^verbatim>\<open>OPEN\<close> never creates a second transport and is served by the attempt in flight)
  fails: after one \<^verbatim>\<open>connect\<close> on a new session the socket is set and not open,
  the store holds one socket, and a second \<^verbatim>\<open>connect\<close> makes it two and returns
  another promise than the first.
\<close>

theorem connect_while_connecting_counterexample:
  "webSocket (this cam1_connecting) \<noteq> None \<and> \<not> is_open cam1_connecting
   \<and> length (sockets cam1_connecting) = 1
   \<and> length (sockets (snd (connect ''ws://host/ws'' cam1_connecting))) = 2
   \<and> fst (connect ''ws://host/ws'' cam1_connecting) \<noteq> fst (connect ''ws://host/ws'' cam1)"
  by (simp add: scenario_defs)

text \<open>
  Claim C3, amended: only the connected case is de-duplicated. A \<^verbatim>\<open>connect(url)\<close>
  made while the socket is set and not \<^verbatim>\<open>OPEN\<close> constructs, unless the socket
  constructor throws, exactly one more socket (for \<open>url\<close>, \<^verbatim>\<open>CONNECTING\<close>) and one
  more transaction manager bound to it, and returns a new pending promise of its own,
  the one its socket's \<^verbatim>\<open>onopen\<close> will settle; the promises of earlier calls are
  left as they are.
\<close>

theorem connect_while_connecting:
  assumes "webSocket (this w) = Some s" and "readyStateOf w s \<noteq> OPEN" and "ws_ctor w u = None"
  shows "sockets (snd (connect u w)) =
           sockets w @ [\<lparr>url = u, ready = CONNECTING, owner = length (promises w)\<rparr>]
         \<and> managers (snd (connect u w)) =
             managers w @ [\<lparr>transport = length (sockets w), listeners = 0\<rparr>]
         \<and> fst (connect u w) = length (promises w)
         \<and> promises (snd (connect u w)) = promises w @ [Pending]
         \<and> promiseState (snd (connect u w)) (fst (connect u w)) = Pending"
proof -
  have "connected w = None"
    using assms by (simp add: connected_def split: option.splits)
  then have "connect u w = open_transport u w"
    by (simp add: connect_def)
  then show ?thesis
    using assms(3) by (simp add: open_transport_ok promiseState_def)
qed

text \<open>
  The amended C3 on the session \<open>cam1_connecting\<close>, whose first \<^verbatim>\<open>connect\<close> is in
  flight.
\<close>

theorem connect_while_connecting_witness:
  "webSocket (this cam1_connecting) = Some 0 \<and> readyStateOf cam1_connecting 0 \<noteq> OPEN
   \<and> ws_ctor cam1_connecting ''ws://host/ws'' = None
   \<and> length (sockets (snd (connect ''ws://host/ws'' cam1_connecting))) = 2
   \<and> fst (connect ''ws://host/ws'' cam1_connecting) = 1
   \<and> promises (snd (connect ''ws://host/ws'' cam1_connecting)) = [Pending, Pending]"
proof -
  have h1: "webSocket (this cam1_connecting) = Some 0"
    and h2: "readyStateOf cam1_connecting 0 \<noteq> OPEN"
    and h3: "ws_ctor cam1_connecting ''ws://host/ws'' = None"
    and h4: "sockets cam1_connecting = [\<lparr>url = ''ws://host/ws'', ready = CONNECTING, owner = 0\<rparr>]"
    and h5: "promises cam1_connecting = [Pending]"
    by (simp_all add: scenario_defs)
  from connect_while_connecting [OF h1 h2 h3] h1 h2 h3 h4 h5
  show ?thesis by simp
qed

text \<open>
  Claim C4: \<^verbatim>\<open>webSocket\<close> is \<^verbatim>\<open>null\<close> exactly when \<^verbatim>\<open>transactionManager\<close> is, after
  construction, after every sequence of method calls, resumptions of suspended calls
  and transport notifications, and at every emission in between, when listeners look
  at the session.
\<close>

theorem handles_paired:
  "paired (this (new_session opts ctor))
   \<and> paired (this (run acts (new_session opts ctor)))
   \<and> list_all (\<lambda>(n, s). paired s) (emitted (run acts (new_session opts ctor)))"
proof -
  have "consistent (new_session opts ctor)"
    by (simp add: consistent_def new_session_def paired_def)
  then have "consistent (run acts (new_session opts ctor))"
    by (rule consistent_run)
  then show ?thesis
    by (simp add: consistent_def new_session_def paired_def)
qed

text \<open>
  C4 along one life of a session: connect, open, \<^verbatim>\<open>close()\<close>, transport close. The
  socket is set until the transport closes, and the handles are paired at the end.
\<close>

theorem handles_paired_witness:
  "paired (this (run [Connect ''ws://host/ws'', Transport (OpenEv 0), Close, Transport (CloseEv 0)] cam1))
   \<and> webSocket (this (run [Connect ''ws://host/ws'', Transport (OpenEv 0), Close] cam1)) = Some 0
   \<and> webSocket (this (run [Connect ''ws://host/ws'', Transport (OpenEv 0), Close, Transport (CloseEv 0)] cam1)) = None"
proof -
  have "webSocket (this (run [Connect ''ws://host/ws'', Transport (OpenEv 0), Close] cam1)) = Some 0"
    and "webSocket (this (run [Connect ''ws://host/ws'', Transport (OpenEv 0), Close, Transport (CloseEv 0)] cam1)) = None"
    by (simp_all add: run_def close_def scenario_defs)
  with handles_paired [of "\<lparr>opt_streamName = Str ''cam1'', opt_url = ''ws://host/ws''\<rparr>" no_throw
      "[Connect ''ws://host/ws'', Transport (OpenEv 0), Close, Transport (CloseEv 0)]"]
  show ?thesis by (simp add: cam1_def)
qed

text \<open>
  Claim C5: a \<^verbatim>\<open>close\<close> notification of any socket of the store sets both handles to
  \<^verbatim>\<open>null\<close> and then emits exactly one \<^verbatim>\<open>connectionClose\<close> (the listeners see both
  handles \<^verbatim>\<open>null\<close>); and nothing else that can happen to a session, no method call,
  no resumption and no other notification, turns a set handle into \<^verbatim>\<open>null\<close>.
\<close>

theorem onclose_resets_then_emits:
  "(s < length (sockets w) \<longrightarrow>
      webSocket (this (deliver (CloseEv s) w)) = None
      \<and> transactionManager (this (deliver (CloseEv s) w)) = None
      \<and> emitted (deliver (CloseEv s) w) =
          emitted w @ [(ConnectionClose, (this w)\<lparr>webSocket := None, transactionManager := None\<rparr>)])
   \<and> ((\<forall>s'. a \<noteq> Transport (CloseEv s')) \<longrightarrow>
        (webSocket (this w) \<noteq> None \<longrightarrow> webSocket (this (exec a w)) \<noteq> None)
        \<and> (transactionManager (this w) \<noteq> None \<longrightarrow> transactionManager (this (exec a w)) \<noteq> None))"
  using exec_keeps_handle [of a w] by (simp add: onclose_def)

text \<open>
  C5 on the connected session \<open>cam1_open\<close>: the transport's close clears the socket
  and emits once; the method \<^verbatim>\<open>close()\<close> itself leaves the socket set.
\<close>

theorem onclose_resets_then_emits_witness:
  "(0::nat) < length (sockets cam1_open)
   \<and> webSocket (this cam1_open) = Some 0
   \<and> webSocket (this (deliver (CloseEv 0) cam1_open)) = None
   \<and> transactionManager (this (deliver (CloseEv 0) cam1_open)) = None
   \<and> length (emitted (deliver (CloseEv 0) cam1_open)) = Suc (length (emitted cam1_open))
   \<and> (\<forall>s'. Close \<noteq> Transport (CloseEv s'))
   \<and> webSocket (this (exec Close cam1_open)) \<noteq> None"
proof -
  have h: "(0::nat) < length (sockets cam1_open)" "webSocket (this cam1_open) = Some 0"
    by (simp_all add: scenario_defs)
  from onclose_resets_then_emits [of 0 cam1_open Close] h
  show ?thesis by simp
qed

text \<open>
  Claim C6: a call \<^verbatim>\<open>subscribe(sdp)\<close> that returns a value \<open>v\<close> has added exactly one
  command to the log, \<^verbatim>\<open>view\<close> with payload
  \<^verbatim>\<open>{ sdp, streamId: streamName }\<close>, handed to the transaction manager the session
  held when the command was sent; and \<open>v\<close> is the \<^verbatim>\<open>sdp\<close> property of the executor's
  reply. The environment is free to act while the call is suspended.
\<close>

theorem subscribe_issues_view:
  assumes "complete (subscribe sdp w) evs1 evs2 reply = (Finished (Inr v), w')"
  shows "\<exists>t. transactionManager
               (this (if webSocket (this w) = None \<or> \<not> is_open w
                      then deliver_all evs1 (snd (connect (wsUrl (this w)) w)) else w)) = Some t
             \<and> issued w' =
                 issued w @ [(t, ''view'', [(''sdp'', Str sdp), (''streamId'', streamName (this w))])]
             \<and> (\<exists>result. reply = Inr result \<and> get_prop result ''sdp'' = Inr v)"
  using assms unfolding subscribe_def by (rule complete_success)

text \<open>
  C6 on the scenario of the specification: \<^verbatim>\<open>subscribe("offer-sdp-1")\<close> on the
  session \<^verbatim>\<open>cam1\<close> with no connection; the transport opens; the executor answers
  \<^verbatim>\<open>{ sdp: "answer-sdp-1" }\<close>.
\<close>

theorem subscribe_issues_view_witness:
  "fst (complete (subscribe ''offer-sdp-1'' cam1) [ReadyState 0 OPEN, OpenEv 0] [] answer1)
     = Finished (Inr (Str ''answer-sdp-1''))
   \<and> (\<exists>t. issued (snd (complete (subscribe ''offer-sdp-1'' cam1) [ReadyState 0 OPEN, OpenEv 0] [] answer1))
            = [(t, ''view'', [(''sdp'', Str ''offer-sdp-1''), (''streamId'', Str ''cam1'')])])"
proof -
  let ?c = "complete (subscribe ''offer-sdp-1'' cam1) [ReadyState 0 OPEN, OpenEv 0] [] answer1"
  have f: "fst ?c = Finished (Inr (Str ''answer-sdp-1''))"
    by (simp add: call_defs scenario_defs)
  then have h: "?c = (Finished (Inr (Str ''answer-sdp-1'')), snd ?c)"
    by (simp add: prod_eq_iff)
  have i: "issued cam1 = []" "streamName (this cam1) = Str ''cam1''"
    by (simp_all add: cam1_def new_session_def)
  from subscribe_issues_view [OF h] f i
  show ?thesis by auto
qed

text \<open>
  Claim C7: a call \<^verbatim>\<open>publish(sdp)\<close> that returns a value \<open>v\<close> has added exactly one
  command to the log, \<^verbatim>\<open>publish\<close> with payload
  \<^verbatim>\<open>{ name: streamName, sdp, codec: "h264" }\<close>, handed to the transaction manager the
  session held when the command was sent; and \<open>v\<close> is the \<^verbatim>\<open>sdp\<close> property of the
  executor's reply.
\<close>

theorem publish_issues_publish:
  assumes "complete (publish sdp w) evs1 evs2 reply = (Finished (Inr v), w')"
  shows "\<exists>t. transactionManager
               (this (if webSocket (this w) = None \<or> \<not> is_open w
                      then deliver_all evs1 (snd (connect (wsUrl (this w)) w)) else w)) = Some t
             \<and> issued w' =
                 issued w @ [(t, ''publish'',
                   [(''name'', streamName (this w)), (''sdp'', Str sdp), (''codec'', Str ''h264'')])]
             \<and> (\<exists>result. reply = Inr result \<and> get_prop result ''sdp'' = Inr v)"
  using assms unfolding publish_def by (rule complete_success)

text \<open>
  C7 on the connected session \<open>cam1_open\<close>, with a server event arriving while the
  command is outstanding.
\<close>

theorem publish_issues_publish_witness:
  "fst (complete (publish ''offer-sdp-2'' cam1_open) [] [ServerEvent 0 Null] answer1)
     = Finished (Inr (Str ''answer-sdp-1''))
   \<and> (\<exists>t. issued (snd (complete (publish ''offer-sdp-2'' cam1_open) [] [ServerEvent 0 Null] answer1))
            = [(t, ''publish'',
                [(''name'', Str ''cam1''), (''sdp'', Str ''offer-sdp-2''), (''codec'', Str ''h264'')])])"
proof -
  let ?c = "complete (publish ''offer-sdp-2'' cam1_open) [] [ServerEvent 0 Null] answer1"
  have f: "fst ?c = Finished (Inr (Str ''answer-sdp-1''))"
    by (simp add: call_defs scenario_defs)
  then have h: "?c = (Finished (Inr (Str ''answer-sdp-1'')), snd ?c)"
    by (simp add: prod_eq_iff)
  have i: "issued cam1_open = []" "streamName (this cam1_open) = Str ''cam1''"
    by (simp_all add: scenario_defs)
  from publish_issues_publish [OF h] f i
  show ?thesis by auto
qed

text \<open>
  Claim C8: when the socket is \<^verbatim>\<open>null\<close> or not \<^verbatim>\<open>OPEN\<close>, \<^verbatim>\<open>subscribe\<close> and
  \<^verbatim>\<open>publish\<close> first call \<^verbatim>\<open>connect\<close> with the stored \<^verbatim>\<open>wsUrl\<close> and suspend on
  its promise, having sent no command. While that promise is pending the call stays
  suspended; when it is rejected with \<open>e\<close> the call throws \<open>e\<close> and does nothing
  else: no command, no second \<^verbatim>\<open>connect\<close>. When the command is rejected with \<open>e\<close>
  the call throws \<open>e\<close>. The last two conjuncts say the same of a whole call.
\<close>

theorem connect_first_and_propagate:
  "(webSocket (this w) = None \<or> \<not> is_open w \<longrightarrow>
      subscribe sdp w =
        (AwaitConnect (fst (connect (wsUrl (this w)) w)) ''view''
           [(''sdp'', Str sdp), (''streamId'', streamName (this w))],
         snd (connect (wsUrl (this w)) w))
      \<and> publish sdp w =
        (AwaitConnect (fst (connect (wsUrl (this w)) w)) ''publish''
           [(''name'', streamName (this w)), (''sdp'', Str sdp), (''codec'', Str ''h264'')],
         snd (connect (wsUrl (this w)) w))
      \<and> issued (snd (connect (wsUrl (this w)) w)) = issued w)
   \<and> (promiseState w p = Pending \<longrightarrow>
        resume (AwaitConnect p name data) reply w = (AwaitConnect p name data, w))
   \<and> (promiseState w p = Rejected e \<longrightarrow>
        resume (AwaitConnect p name data) reply w = (Finished (Inl e), w))
   \<and> resume (AwaitCmd i) (Inl e) w = (Finished (Inl e), w)
   \<and> (promiseState (deliver_all evs1 w) p = Rejected e \<longrightarrow>
        complete (AwaitConnect p name data, w) evs1 evs2 reply
          = (Finished (Inl e), deliver_all evs1 w))
   \<and> complete (AwaitCmd i, w) evs1 evs2 (Inl e) = (Finished (Inl e), deliver_all evs2 w)"
  by (auto simp: subscribe_def publish_def start_cmd_def unwrap_def complete_def
      split: prod.splits)

text \<open>
  C8 on the session \<^verbatim>\<open>cam1\<close>: \<^verbatim>\<open>subscribe\<close> on the new session suspends on
  promise 0; resumed while the transport is connecting it stays suspended; resumed
  after the transport opened in state \<^verbatim>\<open>CLOSING\<close> it throws that error.
\<close>

theorem connect_first_and_propagate_witness:
  "webSocket (this cam1) = None
   \<and> fst (subscribe ''offer-sdp-1'' cam1) =
       AwaitConnect 0 ''view'' [(''sdp'', Str ''offer-sdp-1''), (''streamId'', Str ''cam1'')]
   \<and> promiseState cam1_connecting 0 = Pending
   \<and> resume (AwaitConnect 0 ''view'' []) answer1 cam1_connecting
       = (AwaitConnect 0 ''view'' [], cam1_connecting)
   \<and> promiseState cam1_bad_open 0 = Rejected (StateError CLOSING)
   \<and> resume (AwaitConnect 0 ''view'' []) answer1 cam1_bad_open
       = (Finished (Inl (StateError CLOSING)), cam1_bad_open)
   \<and> complete (AwaitConnect 0 ''view'' [], cam1_bad_open) [] [] answer1
       = (Finished (Inl (StateError CLOSING)), cam1_bad_open)"
proof -
  have h1: "webSocket (this cam1) = None \<or> \<not> is_open cam1"
    and h1': "webSocket (this cam1) = None"
    and h2: "promiseState cam1_connecting 0 = Pending"
    and h3: "promiseState cam1_bad_open 0 = Rejected (StateError CLOSING)"
    and h4: "fst (connect (wsUrl (this cam1)) cam1) = 0" "streamName (this cam1) = Str ''cam1''"
    by (simp_all add: scenario_defs)
  from connect_first_and_propagate [where w = cam1 and sdp = "''offer-sdp-1''"]
    connect_first_and_propagate [where w = cam1_connecting and p = 0 and name = "''view''"
      and data = "[]" and reply = answer1]
    connect_first_and_propagate [where w = cam1_bad_open and p = 0 and name = "''view''"
      and data = "[]" and reply = answer1 and e = "StateError CLOSING" and ?evs1.0 = "[]"
      and ?evs2.0 = "[]"]
    h1 h1' h2 h3 h4
  show ?thesis by (simp add: deliver_all_def)
qed

text \<open>
  Claim C9: \<^verbatim>\<open>close()\<close> ends without an exception in every state. With no socket it
  changes nothing; with a socket it calls \<^verbatim>\<open>close()\<close> on that socket and nothing
  else: the session's two handles and the emitted notifications are as before, the
  reset and \<^verbatim>\<open>connectionClose\<close> being left to \<^verbatim>\<open>onclose\<close>.
\<close>

theorem close_never_throws:
  "fst (close w) = None
   \<and> (webSocket (this w) = None \<longrightarrow> snd (close w) = w)
   \<and> (\<forall>s. webSocket (this w) = Some s \<longrightarrow>
         snd (close w) = w\<lparr>closeCalls := closeCalls w @ [s]\<rparr>)
   \<and> this (snd (close w)) = this w
   \<and> emitted (snd (close w)) = emitted w"
  by (simp add: close_def split: option.splits)

text \<open>
  C9 on the new session \<open>cam1\<close> and on the connected session \<open>cam1_open\<close>.
\<close>

theorem close_never_throws_witness:
  "webSocket (this cam1) = None \<and> snd (close cam1) = cam1
   \<and> webSocket (this cam1_open) = Some 0
   \<and> closeCalls (snd (close cam1_open)) = closeCalls cam1_open @ [0]
   \<and> fst (close cam1_open) = None"
proof -
  have h: "webSocket (this cam1) = None" "webSocket (this cam1_open) = Some 0"
    by (simp_all add: scenario_defs)
  from close_never_throws [of cam1] close_never_throws [of cam1_open] h
  show ?thesis by simp
qed

text \<open>
  Claim C10 as stated (every \<^verbatim>\<open>connect(url)\<close> made while the socket is set and the
  guard of the fast path fails overwrites both handles with freshly constructed ones)
  fails when \<^verbatim>\<open>new WebSocket(url)\<close> throws. After one \<^verbatim>\<open>connect('ws://host/ws')\<close>
  the session holds socket 0 and manager 0, the socket is \<^verbatim>\<open>CONNECTING\<close>, and the
  guard fails; \<^verbatim>\<open>connect('ws://bad/ws')\<close> then returns a promise rejected with the
  thrown value, constructs no socket and no manager, and leaves both handles on socket 0
  and manager 0.
\<close>

theorem connect_overwrites_counterexample:
  "webSocket (this cam1_strict) = Some 0
   \<and> transactionManager (this cam1_strict) = Some 0
   \<and> readyStateOf cam1_strict 0 \<noteq> OPEN
   \<and> connected cam1_strict = None
   \<and> webSocket (this (snd (connect ''ws://bad/ws'' cam1_strict))) = Some 0
   \<and> transactionManager (this (snd (connect ''ws://bad/ws'' cam1_strict))) = Some 0
   \<and> sockets (snd (connect ''ws://bad/ws'' cam1_strict)) = sockets cam1_strict
   \<and> managers (snd (connect ''ws://bad/ws'' cam1_strict)) = managers cam1_strict
   \<and> length (sockets cam1_strict) = 1
   \<and> promiseState (snd (connect ''ws://bad/ws'' cam1_strict))
         (fst (connect ''ws://bad/ws'' cam1_strict)) = Rejected (Thrown (Str ''SyntaxError''))"
  by (simp add: cam1_strict_def throws_on_bad_def new_session_def connect_def connected_def
      open_transport_def readyStateOf_def promiseState_def)

text \<open>
  Claim C10, amended by the proviso that the socket constructor does not throw: a
  \<^verbatim>\<open>connect(url)\<close> made while the socket \<open>old\<close> is set (a socket of
  the store, as every handle of the session is by \<open>run_valid_handles\<close>) and the guard
  of the fast path fails, and for which \<^verbatim>\<open>new WebSocket(url)\<close> does not throw, replaces
  both handles
  by a new socket and a new manager bound to it, without calling \<^verbatim>\<open>close()\<close> on
  \<open>old\<close>, which stays in the store with its callbacks. When \<open>old\<close> fires \<^verbatim>\<open>close\<close>,
  right away or after anything else has happened, both handles of the session become
  \<^verbatim>\<open>null\<close> and \<^verbatim>\<open>connectionClose\<close> is emitted, whatever the handles referred to.
\<close>

theorem connect_overwrites_stale_onclose_clears:
  assumes "webSocket (this w) = Some old" and "old < length (sockets w)"
    and "transactionManager (this w) = None \<or> readyStateOf w old \<noteq> OPEN"
    and "ws_ctor w u = None"
  shows "webSocket (this (snd (connect u w))) = Some (length (sockets w))
         \<and> transactionManager (this (snd (connect u w))) = Some (length (managers w))
         \<and> length (sockets w) \<noteq> old
         \<and> transport (managers (snd (connect u w)) ! length (managers w)) = length (sockets w)
         \<and> closeCalls (snd (connect u w)) = closeCalls w
         \<and> sockets (snd (connect u w)) ! old = sockets w ! old
         \<and> webSocket (this (deliver (CloseEv old) (snd (connect u w)))) = None
         \<and> transactionManager (this (deliver (CloseEv old) (snd (connect u w)))) = None
         \<and> (\<forall>acts. webSocket (this (deliver (CloseEv old) (run acts (snd (connect u w))))) = None
               \<and> transactionManager (this (deliver (CloseEv old) (run acts (snd (connect u w))))) = None
               \<and> emitted (deliver (CloseEv old) (run acts (snd (connect u w)))) =
                   emitted (run acts (snd (connect u w))) @
                     [(ConnectionClose,
                       (this (run acts (snd (connect u w))))
                         \<lparr>webSocket := None, transactionManager := None\<rparr>)])"
proof -
  let ?w1 = "snd (connect u w)"
  have "connected w = None"
    using assms(1,3) by (auto simp: connected_def split: option.splits)
  then have c: "connect u w = open_transport u w"
    by (simp add: connect_def)
  have now: "webSocket (this ?w1) = Some (length (sockets w))"
    "transactionManager (this ?w1) = Some (length (managers w))"
    "transport (managers ?w1 ! length (managers w)) = length (sockets w)"
    "closeCalls ?w1 = closeCalls w"
    "sockets ?w1 ! old = sockets w ! old"
    "old < length (sockets ?w1)"
    using assms(2,4) by (simp_all add: c open_transport_ok nth_append)
  have later: "old < length (sockets (run acts ?w1))" for acts
    using now(6) sockets_run [of ?w1 acts] by simp
  show ?thesis
    using assms(2) now by (simp add: later onclose_def)
qed

text \<open>
  C10 on the session \<open>cam1_connecting\<close>: the second \<^verbatim>\<open>connect\<close> installs socket 1
  and manager 1; the close of socket 0 then clears them.
\<close>

theorem connect_overwrites_stale_onclose_clears_witness:
  "webSocket (this cam1_connecting) = Some 0 \<and> 0 < length (sockets cam1_connecting)
   \<and> readyStateOf cam1_connecting 0 \<noteq> OPEN
   \<and> ws_ctor cam1_connecting ''ws://host/ws'' = None
   \<and> webSocket (this cam1_twice) = Some 1
   \<and> transactionManager (this cam1_twice) = Some 1
   \<and> closeCalls cam1_twice = []
   \<and> webSocket (this (deliver (CloseEv 0) cam1_twice)) = None
   \<and> transactionManager (this (deliver (CloseEv 0) cam1_twice)) = None"
proof -
  have h1: "webSocket (this cam1_connecting) = Some 0"
    and h2: "0 < length (sockets cam1_connecting)"
    and h3: "transactionManager (this cam1_connecting) = None \<or> readyStateOf cam1_connecting 0 \<noteq> OPEN"
    and h4: "ws_ctor cam1_connecting ''ws://host/ws'' = None"
    and h5: "readyStateOf cam1_connecting 0 \<noteq> OPEN"
    and h6: "length (sockets cam1_connecting) = 1" "length (managers cam1_connecting) = 1"
      "closeCalls cam1_connecting = []"
    by (simp_all add: scenario_defs)
  from connect_overwrites_stale_onclose_clears [OF h1 h2 h3 h4] h1 h2 h4 h5 h6
  show ?thesis by (simp add: cam1_twice_def)
qed

end
